theory Spec2Isabelle
  imports Complex_Main
begin

section \<open>The bar chart component of app.component.ts\<close>

text \<open>
  The component draws one bar chart into an svg element through the d3 library. Its own
  code is the data, the two scale constructors \<open>xScale\<close> and \<open>yScale\<close>, the routine
  \<open>setSizeAndPositionToRect\<close> and the three update routines. The d3 operations they call
  (band and linear scales, \<open>d3.max\<close>, the data join with its enter and exit selections)
  are written out below as far as the component uses them.

  A JavaScript number is a rational here, with the one non-finite value the component can
  produce, \<open>NaN\<close>, as a constructor of its own: arithmetic is exact, the rounding of
  doubles is not part of the model.
\<close>

subsection \<open>Data\<close>

text \<open>\<^verbatim>\<open>interface Datum { name: string; value: number; primary?: boolean; }\<close>: the field
  \<open>value\<close> is \<open>val\<close>, a finite number; an absent \<open>primary\<close> is \<open>None\<close>.\<close>

record Datum =
  name :: string
  val :: rat
  primary :: "bool option"

type_synonym Data = "Datum list"

datatype jsnum = NaN | Num rat

text \<open>Truthiness of \<open>d.primary\<close>: \<open>undefined\<close> and \<open>false\<close> are falsy.\<close>

definition truthy :: "bool option \<Rightarrow> bool" where
  "truthy b = (case b of None \<Rightarrow> False | Some v \<Rightarrow> v)"

definition svgWidth :: rat where
  "svgWidth = 600"

definition svgHeight :: rat where
  "svgHeight = 300"

record margin =
  mLeft :: rat
  mRight :: rat
  mTop :: rat
  mBottom :: rat

definition svgMargin :: margin where
  "svgMargin = \<lparr> mLeft = 25, mRight = 5, mTop = 5, mBottom = 15 \<rparr>"

subsection \<open>d3.scaleBand\<close>

record band_scale =
  bandDomain :: "string list"
  bandRange :: "rat \<times> rat"
  paddingInner :: rat
  paddingOuter :: rat
  bandAlign :: rat

definition scaleBand :: band_scale where
  "scaleBand = \<lparr> bandDomain = [], bandRange = (0, 1), paddingInner = 0, paddingOuter = 0,
                 bandAlign = 1 / 2 \<rparr>"

text \<open>\<open>band.domain(values)\<close> keeps the first occurrence of every value, in order: a value
  that is in the index already is skipped.\<close>

fun internDomain :: "string list \<Rightarrow> string list \<Rightarrow> string list" where
  "internDomain acc [] = acc"
| "internDomain acc (v # vs) =
     (if v \<in> set acc then internDomain acc vs else internDomain (acc @ [v]) vs)"

definition setBandDomain :: "string list \<Rightarrow> band_scale \<Rightarrow> band_scale" where
  "setBandDomain vs sc = sc\<lparr> bandDomain := internDomain [] vs \<rparr>"

definition setBandRange :: "rat \<times> rat \<Rightarrow> band_scale \<Rightarrow> band_scale" where
  "setBandRange r sc = sc\<lparr> bandRange := r \<rparr>"

text \<open>\<open>band.padding(p)\<close>: \<open>paddingInner = Math.min(1, paddingOuter = p)\<close>.\<close>

definition setBandPadding :: "rat \<Rightarrow> band_scale \<Rightarrow> band_scale" where
  "setBandPadding p sc = sc\<lparr> paddingInner := min 1 p, paddingOuter := p \<rparr>"

text \<open>The \<open>rescale\<close> of the band scale (rounding is off by default).\<close>

definition bandStep :: "band_scale \<Rightarrow> rat" where
  "bandStep sc =
     (let (r0, r1) = bandRange sc;
          start = (if r1 < r0 then r1 else r0);
          stop = (if r1 < r0 then r0 else r1)
      in (stop - start) /
         max 1 (of_nat (length (bandDomain sc)) - paddingInner sc + paddingOuter sc * 2))"

definition bandStart :: "band_scale \<Rightarrow> rat" where
  "bandStart sc =
     (let (r0, r1) = bandRange sc;
          start = (if r1 < r0 then r1 else r0);
          stop = (if r1 < r0 then r0 else r1)
      in start + (stop - start
                  - bandStep sc * (of_nat (length (bandDomain sc)) - paddingInner sc))
                 * bandAlign sc)"

definition bandwidth :: "band_scale \<Rightarrow> rat" where
  "bandwidth sc = bandStep sc * (1 - paddingInner sc)"

definition bandValues :: "band_scale \<Rightarrow> rat list" where
  "bandValues sc =
     (let vs = map (\<lambda>i. bandStart sc + bandStep sc * of_nat i) [0 ..< length (bandDomain sc)]
      in if snd (bandRange sc) < fst (bandRange sc) then rev vs else vs)"

fun indexOf :: "string \<Rightarrow> string list \<Rightarrow> nat option" where
  "indexOf v [] = None"
| "indexOf v (w # ws) = (if v = w then Some 0 else map_option Suc (indexOf v ws))"

text \<open>Applying the scale: \<open>undefined\<close> (\<open>None\<close>) for a value that is not in the domain,
  otherwise \<open>range[i % range.length]\<close>.\<close>

definition bandApply :: "band_scale \<Rightarrow> string \<Rightarrow> rat option" where
  "bandApply sc v =
     (case indexOf v (bandDomain sc) of
        None \<Rightarrow> None
      | Some i \<Rightarrow> Some (bandValues sc ! (i mod length (bandValues sc))))"

subsection \<open>d3.max, d3.scaleLinear and nice\<close>

text \<open>\<open>d3.max\<close> of no values is \<open>undefined\<close>.\<close>

fun d3max :: "rat list \<Rightarrow> rat option" where
  "d3max [] = None"
| "d3max (v # vs) = (case d3max vs of None \<Rightarrow> Some v | Some m \<Rightarrow> Some (max v m))"

record linear_scale =
  linDomain :: "jsnum \<times> jsnum"
  linRange :: "rat \<times> rat"

definition scaleLinear :: linear_scale where
  "scaleLinear = \<lparr> linDomain = (Num 0, Num 1), linRange = (0, 1) \<rparr>"

text \<open>\<open>linear.domain([a, b])\<close> coerces both ends to numbers: \<open>undefined\<close> becomes
  \<open>NaN\<close>.\<close>

definition toNumber :: "rat option \<Rightarrow> jsnum" where
  "toNumber v = (case v of None \<Rightarrow> NaN | Some q \<Rightarrow> Num q)"

definition setLinDomain :: "rat option \<times> rat option \<Rightarrow> linear_scale \<Rightarrow> linear_scale" where
  "setLinDomain d sc = sc\<lparr> linDomain := (toNumber (fst d), toNumber (snd d)) \<rparr>"

definition setLinRange :: "rat \<times> rat \<Rightarrow> linear_scale \<Rightarrow> linear_scale" where
  "setLinRange r sc = sc\<lparr> linRange := r \<rparr>"

definition pow10 :: "int \<Rightarrow> rat" where
  "pow10 k = (if 0 \<le> k then 10 ^ nat k else 1 / 10 ^ nat (- k))"

function ilog10 :: "nat \<Rightarrow> nat" where
  "ilog10 n = (if n < 10 then 0 else Suc (ilog10 (n div 10)))"
  by pat_completeness auto
termination
  by (relation "measure id") auto

declare ilog10.simps [simp del]

text \<open>\<open>Math.floor(Math.log10(q))\<close> for a positive \<open>q\<close>.\<close>

definition floorLog10 :: "rat \<Rightarrow> int" where
  "floorLog10 q =
     (if 1 \<le> q then int (ilog10 (nat \<lfloor>q\<rfloor>))
      else - (int (ilog10 (nat (\<lceil>1 / q\<rceil> - 1))) + 1))"

text \<open>\<open>tickIncrement(start, stop, 10)\<close> of d3-array, the count being the 10 that
  \<open>nice()\<close> uses when called without one. The thresholds are the square roots of 50, 10
  and 2, compared by their squares. \<open>None\<close>: the increment is not a finite number
  (\<open>-Infinity\<close> for \<open>start = stop\<close>, \<open>NaN\<close> for \<open>stop < start\<close>).\<close>

definition tickIncrement :: "rat \<Rightarrow> rat \<Rightarrow> rat option" where
  "tickIncrement start stop =
     (if stop \<le> start then None
      else
        let step = (stop - start) / 10;
            power = floorLog10 step;
            error = step / pow10 power;
            factor = (if 50 \<le> error * error then 10
                      else if 10 \<le> error * error then 5
                      else if 2 \<le> error * error then 2 else (1::rat))
        in Some (if power < 0 then - (pow10 (- power) / factor) else pow10 power * factor))"

text \<open>The loop of \<open>linear.nice()\<close>: at most ten rounds, each extending the interval to
  multiples of the tick increment, until the increment no longer changes. \<open>None\<close>: the
  loop ends without setting the domain.\<close>

fun niceLoop :: "nat \<Rightarrow> rat option \<Rightarrow> rat \<Rightarrow> rat \<Rightarrow> (rat \<times> rat) option" where
  "niceLoop 0 prestep start stop = None"
| "niceLoop (Suc k) prestep start stop =
     (case tickIncrement start stop of
        None \<Rightarrow> None
      | Some step \<Rightarrow>
          if Some step = prestep then Some (start, stop)
          else if 0 < step then
            niceLoop k (Some step) (of_int \<lfloor>start / step\<rfloor> * step) (of_int \<lceil>stop / step\<rceil> * step)
          else if step < 0 then
            niceLoop k (Some step) (of_int \<lceil>start * step\<rceil> / step) (of_int \<lfloor>stop * step\<rfloor> / step)
          else None)"

definition nice :: "linear_scale \<Rightarrow> linear_scale" where
  "nice sc =
     (case linDomain sc of
        (Num d0, Num d1) \<Rightarrow>
          if d1 < d0 then
            (case niceLoop 10 None d1 d0 of
               None \<Rightarrow> sc
             | Some (start, stop) \<Rightarrow> sc\<lparr> linDomain := (Num stop, Num start) \<rparr>)
          else
            (case niceLoop 10 None d0 d1 of
               None \<Rightarrow> sc
             | Some (start, stop) \<Rightarrow> sc\<lparr> linDomain := (Num start, Num stop) \<rparr>)
      | _ \<Rightarrow> sc)"

text \<open>Applying the linear scale to a finite number: \<open>bimap\<close> with \<open>normalizeLin\<close> and
  \<open>interpolateNumber\<close>. A domain of one point maps everything to the middle of the range;
  a domain with \<open>NaN\<close> maps everything to \<open>NaN\<close>.\<close>

definition interpolateNumber :: "rat \<Rightarrow> rat \<Rightarrow> rat \<Rightarrow> rat" where
  "interpolateNumber a b t = a * (1 - t) + b * t"

definition normalizeLin :: "rat \<Rightarrow> rat \<Rightarrow> rat \<Rightarrow> rat" where
  "normalizeLin a b x = (if b - a = 0 then 1 / 2 else (x - a) / (b - a))"

definition linApply :: "linear_scale \<Rightarrow> rat \<Rightarrow> jsnum" where
  "linApply sc x =
     (case linDomain sc of
        (Num d0, Num d1) \<Rightarrow>
          (let (r0, r1) = linRange sc
           in if d1 < d0 then Num (interpolateNumber r1 r0 (normalizeLin d1 d0 x))
              else Num (interpolateNumber r0 r1 (normalizeLin d0 d1 x)))
      | _ \<Rightarrow> NaN)"

subsection \<open>The scales of the component\<close>

definition xScale :: "Data \<Rightarrow> band_scale" where
  "xScale data =
     setBandPadding (2 / 5)
       (setBandRange (mLeft svgMargin, svgWidth - mRight svgMargin)
          (setBandDomain (map name data) scaleBand))"

definition yScale :: "Data \<Rightarrow> linear_scale" where
  "yScale data =
     nice
       (setLinRange (svgHeight - mBottom svgMargin, mTop svgMargin)
          (setLinDomain (Some 0, d3max (map val data)) scaleLinear))"

subsection \<open>The graphic\<close>

text \<open>
  The graphic is the list of the children of the svg root element, in document order.
  The component creates three kinds of element there: \<open>rect\<close> (a bar),
  \<open>foreignObject\<close> with one \<open>div\<close> inside (a label) and \<open>g\<close> (an axis). The
  template of the component is not part of the sources; any list of such elements is a
  graphic the routines may start from. The svg root itself is there when the routines run:
  they are called from \<open>ngAfterViewInit\<close> on.

  An attribute is \<open>None\<close> when it is absent. \<open>datum\<close> is the \<open>__data__\<close> property that
  the data join sets.
\<close>

record node =
  datum :: "Datum option"
  attrX :: "jsnum option"
  attrY :: "jsnum option"
  attrWidth :: "jsnum option"
  attrHeight :: "jsnum option"

record rect_el = node +
  primaryBar :: bool
  secondaryBar :: bool

text \<open>The text of a label is the template string \<^verbatim>\<open>`${d.value}pts`\<close>: the number and the
  suffix.\<close>

record div_el =
  divDatum :: "Datum option"
  label :: bool
  primaryLabel :: bool
  secondaryLabel :: bool
  divText :: "(rat \<times> string) option"

record fo_el = node +
  child :: "div_el option"

datatype orient = OrientBottom | OrientLeft

datatype scale = Band band_scale | Linear linear_scale

record axis =
  axisOrient :: orient
  axisScale :: scale
  tickSize :: rat

record g_el =
  gClass :: string
  gTransform :: "rat \<times> rat"
  gAxis :: "axis option"

datatype element = Rect rect_el | ForeignObject fo_el | G g_el

type_synonym svg = "element list"

fun isRect :: "element \<Rightarrow> bool" where
  "isRect (Rect r) = True"
| "isRect e = False"

fun isForeignObject :: "element \<Rightarrow> bool" where
  "isForeignObject (ForeignObject l) = True"
| "isForeignObject e = False"

text \<open>The selector \<open>.axis\<close>.\<close>

fun isAxis :: "element \<Rightarrow> bool" where
  "isAxis (G g) = (gClass g = ''axis'')"
| "isAxis e = False"

fun elDatum :: "element \<Rightarrow> Datum option" where
  "elDatum (Rect r) = datum r"
| "elDatum (ForeignObject l) = datum l"
| "elDatum (G g) = None"

fun setDatum :: "Datum \<Rightarrow> element \<Rightarrow> element" where
  "setDatum d (Rect r) = Rect (r\<lparr> datum := Some d \<rparr>)"
| "setDatum d (ForeignObject l) = ForeignObject (l\<lparr> datum := Some d \<rparr>)"
| "setDatum d (G g) = G g"

text \<open>\<open>svgSelectAll\<close>: the elements that a selector matches, in document order.\<close>

definition svgSelectAll :: "(element \<Rightarrow> bool) \<Rightarrow> svg \<Rightarrow> element list" where
  "svgSelectAll sel s = filter sel s"

definition svgRectElements :: "svg \<Rightarrow> element list" where
  "svgRectElements s = svgSelectAll isRect s"

definition svgForeignObjectElements :: "svg \<Rightarrow> element list" where
  "svgForeignObjectElements s = svgSelectAll isForeignObject s"

subsection \<open>The data join\<close>

text \<open>
  \<open>selection.data(data)\<close> without a key function joins by index: the \<open>i\<close>-th selected
  element and \<open>data[i]\<close>. The update selection is the selected elements that have a
  datum, the enter selection the data beyond the last selected element, the exit
  selection the selected elements beyond the last datum.

  \<open>onUpdate sel f data s\<close> applies \<open>f data[i]\<close> to the \<open>i\<close>-th selected element of
  \<open>s\<close>, as far as there are data, and leaves every other element as it is. An accessor
  such as \<^verbatim>\<open>d => y(d.value)\<close> is called with the datum bound to the element; for the
  \<open>i\<close>-th element of a joined selection that is \<open>data[i]\<close>, so \<open>f\<close> takes it from the
  data.
\<close>

fun onUpdate :: "(element \<Rightarrow> bool) \<Rightarrow> (Datum \<Rightarrow> element \<Rightarrow> element) \<Rightarrow> Data \<Rightarrow> svg \<Rightarrow> svg" where
  "onUpdate sel f ds [] = []"
| "onUpdate sel f [] (e # es) = e # es"
| "onUpdate sel f (d # ds) (e # es) =
     (if sel e then f d e # onUpdate sel f ds es else e # onUpdate sel f (d # ds) es)"

definition enterData :: "(element \<Rightarrow> bool) \<Rightarrow> Data \<Rightarrow> svg \<Rightarrow> Data" where
  "enterData sel data s = drop (length (svgSelectAll sel s)) data"

text \<open>\<open>exit().remove()\<close>: the selected elements from the \<open>n\<close>-th on leave the graphic.\<close>

fun exitRemove :: "(element \<Rightarrow> bool) \<Rightarrow> nat \<Rightarrow> svg \<Rightarrow> svg" where
  "exitRemove sel n [] = []"
| "exitRemove sel n (e # es) =
     (if sel e then (case n of 0 \<Rightarrow> exitRemove sel 0 es | Suc k \<Rightarrow> e # exitRemove sel k es)
      else e # exitRemove sel n es)"

text \<open>\<open>selection.data()\<close> of the first \<open>n\<close> selected elements: their data. Every
  element of a joined selection has one.\<close>

definition selectionData :: "(element \<Rightarrow> bool) \<Rightarrow> nat \<Rightarrow> svg \<Rightarrow> Data" where
  "selectionData sel n s =
     concat (map (\<lambda>e. case elDatum e of None \<Rightarrow> [] | Some d \<Rightarrow> [d]) (take n (svgSelectAll sel s)))"

subsection \<open>setSizeAndPositionToRect\<close>

text \<open>\<open>svgHeight - svgMargin.bottom - y\<close>, where \<open>y\<close> may be \<open>NaN\<close>.\<close>

definition jsMinus :: "rat \<Rightarrow> jsnum \<Rightarrow> jsnum" where
  "jsMinus a y = (case y of NaN \<Rightarrow> NaN | Num q \<Rightarrow> Num (a - q))"

text \<open>The four attributes of one element of the selection, from its datum \<open>d\<close>.
  \<open>attr\<close> removes an attribute whose value is \<open>undefined\<close>.\<close>

definition setSizeAndPositionToRect :: "Data \<Rightarrow> Datum \<Rightarrow> 'a node_scheme \<Rightarrow> 'a node_scheme" where
  "setSizeAndPositionToRect data d nd =
     (let x = xScale data; y = yScale data
      in nd\<lparr> attrX := map_option Num (bandApply x (name d)),
             attrY := Some (linApply y (val d)),
             attrWidth := Some (Num (bandwidth x)),
             attrHeight := Some (jsMinus (svgHeight - mBottom svgMargin) (linApply y (val d))) \<rparr>)"

fun sizeElement :: "Data \<Rightarrow> Datum \<Rightarrow> element \<Rightarrow> element" where
  "sizeElement data d (Rect r) = Rect (setSizeAndPositionToRect data d r)"
| "sizeElement data d (ForeignObject l) = ForeignObject (setSizeAndPositionToRect data d l)"
| "sizeElement data d (G g) = G g"

subsection \<open>updateBars\<close>

definition appendRect :: "Datum \<Rightarrow> rect_el" where
  "appendRect d =
     \<lparr> datum = Some d, attrX = None, attrY = None, attrWidth = None, attrHeight = None,
       primaryBar = False, secondaryBar = False \<rparr>"

fun classedBar :: "Datum \<Rightarrow> element \<Rightarrow> element" where
  "classedBar d (Rect r) =
     Rect (r\<lparr> primaryBar := truthy (primary d), secondaryBar := \<not> truthy (primary d) \<rparr>)"
| "classedBar d e = e"

text \<open>
  \<open>rects\<close> binds the data; the entering rects are appended to the svg root, after its
  last child; the merged selection is the first \<open>length data\<close> rects, and
  \<open>setSizeAndPositionToRect\<close> is called without data, so it takes the data of that
  selection; the rects of the exit selection are removed last.
\<close>

definition updateBars :: "Data \<Rightarrow> svg \<Rightarrow> svg" where
  "updateBars data s =
     (let rects = onUpdate isRect setDatum data s;
          appended = rects @ map (\<lambda>d. Rect (appendRect d)) (enterData isRect data s);
          selData = selectionData isRect (length data) appended;
          merged = onUpdate isRect (\<lambda>d e. classedBar d (sizeElement selData d e)) data appended
      in exitRemove isRect (length data) merged)"

subsection \<open>updateLabels\<close>

text \<open>
  \<open>select('xhtml\\:div').text(...)\<close> on the labels that exist already: whether that
  selector matches the \<open>div\<close> that \<open>append('xhtml:div')\<close> created is decided by the
  browser's selector matching, which is not part of the sources. It is the parameter
  \<open>m\<close>. Where it matches, \<open>select\<close> hands the datum of the label to the \<open>div\<close> and
  \<open>text\<close> writes the new text.
\<close>

definition selectDivText :: "bool \<Rightarrow> Datum \<Rightarrow> fo_el \<Rightarrow> fo_el" where
  "selectDivText m d l =
     (case child l of
        None \<Rightarrow> l
      | Some dv \<Rightarrow>
          if m then l\<lparr> child := Some (dv\<lparr> divDatum := datum l, divText := Some (val d, ''pts'') \<rparr>) \<rparr>
          else l)"

fun updateLabel :: "bool \<Rightarrow> Data \<Rightarrow> Datum \<Rightarrow> element \<Rightarrow> element" where
  "updateLabel m data d (ForeignObject l) =
     ForeignObject (selectDivText m d (setSizeAndPositionToRect data d l))"
| "updateLabel m data d e = e"

definition appendForeignObject :: "Datum \<Rightarrow> fo_el" where
  "appendForeignObject d =
     \<lparr> datum = Some d, attrX = None, attrY = None, attrWidth = None, attrHeight = None,
       child = None \<rparr>"

definition appendDiv :: "Datum \<Rightarrow> fo_el \<Rightarrow> fo_el" where
  "appendDiv d l =
     l\<lparr> child := Some \<lparr> divDatum = datum l, label = True,
                         primaryLabel = truthy (primary d),
                         secondaryLabel = (\<not> truthy (primary d)),
                         divText = Some (val d, ''pts'') \<rparr> \<rparr>"

definition enterLabel :: "Data \<Rightarrow> Datum \<Rightarrow> element" where
  "enterLabel data d =
     ForeignObject (appendDiv d (setSizeAndPositionToRect data d (appendForeignObject d)))"

definition updateLabels :: "bool \<Rightarrow> Data \<Rightarrow> svg \<Rightarrow> svg" where
  "updateLabels m data s =
     (let dataLabels = onUpdate isForeignObject setDatum data s;
          updated = onUpdate isForeignObject (updateLabel m data) data dataLabels;
          entered = updated @ map (enterLabel data) (enterData isForeignObject data s)
      in exitRemove isForeignObject (length data) entered)"

subsection \<open>updateAxises\<close>

definition axisBottom :: "band_scale \<Rightarrow> rat \<Rightarrow> axis" where
  "axisBottom sc t = \<lparr> axisOrient = OrientBottom, axisScale = Band sc, tickSize = t \<rparr>"

definition axisLeft :: "linear_scale \<Rightarrow> rat \<Rightarrow> axis" where
  "axisLeft sc t = \<lparr> axisOrient = OrientLeft, axisScale = Linear sc, tickSize = t \<rparr>"

definition xAxisGroup :: "Data \<Rightarrow> g_el" where
  "xAxisGroup data =
     \<lparr> gClass = ''axis'', gTransform = (0, svgHeight - mBottom svgMargin),
       gAxis = Some (axisBottom (xScale data) 0) \<rparr>"

definition yAxisGroup :: "Data \<Rightarrow> g_el" where
  "yAxisGroup data =
     \<lparr> gClass = ''axis'', gTransform = (mLeft svgMargin, 0),
       gAxis = Some (axisLeft (yScale data) (- svgWidth + (mLeft svgMargin + mRight svgMargin))) \<rparr>"

definition updateAxises :: "Data \<Rightarrow> svg \<Rightarrow> svg" where
  "updateAxises data s =
     (let removed = filter (\<lambda>e. \<not> isAxis e) s;
          withX = removed @ [G (xAxisGroup data)]
      in withX @ [G (yAxisGroup data)])"

subsection \<open>updateSvg and ngAfterViewInit\<close>

text \<open>\<open>updateSvg(data: Data = [])\<close>: \<open>None\<close> is the omitted argument, for which the
  parameter takes its default.\<close>

definition defaultData :: "Data option \<Rightarrow> Data" where
  "defaultData arg = (case arg of None \<Rightarrow> [] | Some d \<Rightarrow> d)"

definition updateSvg :: "bool \<Rightarrow> Data option \<Rightarrow> svg \<Rightarrow> svg" where
  "updateSvg m arg s =
     (let data = defaultData arg;
          s1 = updateAxises data s;
          s2 = updateBars data s1
      in updateLabels m data s2)"

text \<open>The names of the fixed data, in UTF-8.\<close>

definition kyogo :: string where
  "kyogo = [CHR 0xE7, CHR 0xAB, CHR 0xB6, CHR 0xE5, CHR 0x90, CHR 0x88]"

definition sha :: string where
  "sha = [CHR 0xE7, CHR 0xA4, CHR 0xBE]"

definition tosha :: string where
  "tosha = [CHR 0xE5, CHR 0xBD, CHR 0x93] @ sha"

definition fixedData :: Data where
  "fixedData =
     [ \<lparr> name = kyogo @ ''A'' @ sha, val = 53, primary = None \<rparr>,
       \<lparr> name = tosha, val = 72, primary = Some True \<rparr>,
       \<lparr> name = kyogo @ ''B'' @ sha, val = 81, primary = None \<rparr>,
       \<lparr> name = kyogo @ ''C'' @ sha, val = 69, primary = None \<rparr>,
       \<lparr> name = kyogo @ ''D'' @ sha, val = 57, primary = None \<rparr>,
       \<lparr> name = kyogo @ ''E'' @ sha, val = 34, primary = None \<rparr>,
       \<lparr> name = kyogo @ ''F'' @ sha, val = 13, primary = None \<rparr> ]"

definition ngAfterViewInit :: "bool \<Rightarrow> svg \<Rightarrow> svg" where
  "ngAfterViewInit m s = updateSvg m (Some fixedData) s"



subsection \<open>Notions used in the statements\<close>

text \<open>\<open>drawnBar data d\<close> is the rect that \<open>updateBars\<close> draws for the datum \<open>d\<close>: bound
  to \<open>d\<close>, sized by \<open>setSizeAndPositionToRect\<close> and classed. \<open>geometry\<close> reads the four
  attributes that \<open>setSizeAndPositionToRect\<close> sets, and \<open>drawnGeometry data d\<close> is what it
  sets them to for \<open>d\<close>.\<close>

definition drawnBar :: "Data \<Rightarrow> Datum \<Rightarrow> element" where
  "drawnBar data d = classedBar d (sizeElement data d (Rect (appendRect d)))"

fun geometry :: "element \<Rightarrow> jsnum option \<times> jsnum option \<times> jsnum option \<times> jsnum option" where
  "geometry (Rect r) = (attrX r, attrY r, attrWidth r, attrHeight r)"
| "geometry (ForeignObject l) = (attrX l, attrY l, attrWidth l, attrHeight l)"
| "geometry (G g) = (None, None, None, None)"

definition drawnGeometry :: "Data \<Rightarrow> Datum \<Rightarrow> jsnum option \<times> jsnum option \<times> jsnum option \<times> jsnum option" where
  "drawnGeometry data d = geometry (sizeElement data d (Rect (appendRect d)))"



text \<open>An element carries exactly one of its two classes: \<open>primaryBar\<close> or \<open>secondaryBar\<close>
  for a rect, \<open>primaryLabel\<close> or \<open>secondaryLabel\<close> for the \<open>div\<close> of a label.\<close>

fun exclusiveClasses :: "element \<Rightarrow> bool" where
  "exclusiveClasses (Rect r) = (primaryBar r \<noteq> secondaryBar r)"
| "exclusiveClasses (ForeignObject l) =
     (case child l of None \<Rightarrow> True | Some dv \<Rightarrow> primaryLabel dv \<noteq> secondaryLabel dv)"
| "exclusiveClasses (G g) = True"

text \<open>Example data: one datum, and two data with the same name.\<close>

definition oneDatum :: Datum where
  "oneDatum = \<lparr> name = ''a'', val = 1, primary = None \<rparr>"

definition sameNames :: Data where
  "sameNames = [\<lparr> name = ''a'', val = 1, primary = None \<rparr>,
                \<lparr> name = ''a'', val = 2, primary = Some True \<rparr>]"



section \<open>Lemmas on the data join and the update routines\<close>

lemma onUpdate_Nil [simp]: "onUpdate sel f [] s = s"
  by (cases s) simp_all

lemma onUpdate_append:
  "(\<And>d e. sel e \<Longrightarrow> sel (f d e)) \<Longrightarrow>
   onUpdate sel f ds (s @ t) = onUpdate sel f ds s @ onUpdate sel f (drop (length (filter sel s)) ds) t"
  by (induction sel f ds s rule: onUpdate.induct) simp_all

lemma onUpdate_filter_length:
  "(\<And>d e. sel e \<Longrightarrow> sel (f d e)) \<Longrightarrow>
   length (filter sel (onUpdate sel f ds s)) = length (filter sel s)"
  by (induction sel f ds s rule: onUpdate.induct) simp_all

lemma onUpdate_comp:
  "(\<And>d e. sel e \<Longrightarrow> sel (g d e)) \<Longrightarrow>
   onUpdate sel f ds (onUpdate sel g ds s) = onUpdate sel (\<lambda>d e. f d (g d e)) ds s"
  by (induction sel g ds s rule: onUpdate.induct) simp_all

lemma onUpdate_cong:
  "(\<And>d e. sel e \<Longrightarrow> f d e = g d e) \<Longrightarrow> onUpdate sel f ds s = onUpdate sel g ds s"
  by (induction sel f ds s rule: onUpdate.induct) simp_all

lemma onUpdate_map_all:
  "(\<And>d. sel (h d)) \<Longrightarrow> onUpdate sel f ds (map h ds) = map (\<lambda>d. f d (h d)) ds"
  by (induction ds) simp_all

lemma onUpdate_other:
  "(\<And>e. p e \<Longrightarrow> \<not> sel e) \<Longrightarrow> (\<And>d e. sel e \<Longrightarrow> \<not> p (f d e)) \<Longrightarrow>
   filter p (onUpdate sel f ds s) = filter p s"
  by (induction sel f ds s rule: onUpdate.induct) auto

lemma onUpdate_none:
  "filter sel s = [] \<Longrightarrow> onUpdate sel f ds s = s"
  by (induction sel f ds s rule: onUpdate.induct) (auto split: if_splits)

lemma exitRemove_append:
  "exitRemove sel n (s @ t) = exitRemove sel n s @ exitRemove sel (n - length (filter sel s)) t"
  by (induction s arbitrary: n) (auto split: nat.splits)

lemma exitRemove_filter: "filter sel (exitRemove sel n s) = take n (filter sel s)"
  by (induction s arbitrary: n) (auto split: nat.splits)

lemma exitRemove_other:
  "(\<And>e. p e \<Longrightarrow> \<not> sel e) \<Longrightarrow> filter p (exitRemove sel n s) = filter p s"
  by (induction s arbitrary: n) (auto split: nat.splits)

lemma exitRemove_id:
  "length (filter sel s) \<le> n \<Longrightarrow> exitRemove sel n s = s"
  by (induction s arbitrary: n) (auto split: nat.splits)


lemma isRect_setDatum [simp]: "isRect (setDatum d e) = isRect e"
  by (cases e) simp_all

lemma isFo_setDatum [simp]: "isForeignObject (setDatum d e) = isForeignObject e"
  by (cases e) simp_all

lemma isRect_sizeElement [simp]: "isRect (sizeElement data d e) = isRect e"
  by (cases e) simp_all

lemma isRect_classedBar [simp]: "isRect (classedBar d e) = isRect e"
  by (cases e) simp_all

lemma isRect_drawnBar [simp]: "isRect (drawnBar data d)"
  by (simp add: drawnBar_def)

lemma drawnBar_over:
  "isRect e \<Longrightarrow> classedBar d (sizeElement data d (setDatum d e)) = drawnBar data d"
  by (cases e) (simp_all add: drawnBar_def appendRect_def setSizeAndPositionToRect_def Let_def)

lemma elDatum_setDatum: "isRect e \<Longrightarrow> elDatum (setDatum d e) = Some d"
  by (cases e) simp_all

lemma joined_data:
  "take (length ds)
     (map elDatum (filter isRect (onUpdate isRect setDatum ds s
        @ map (\<lambda>d. Rect (appendRect d)) (drop (length (filter isRect s)) ds))))
   = map Some ds"
proof (induction s arbitrary: ds)
  case Nil
  show ?case by (simp add: appendRect_def o_def)
next
  case (Cons e es)
  show ?case
  proof (cases ds)
    case Nil
    then show ?thesis by simp
  next
    case (Cons d ds')
    then show ?thesis using Cons.IH [of ds'] Cons.IH [of "d # ds'"]
      by (simp add: elDatum_setDatum)
  qed
qed

lemma selectionData_joined:
  "selectionData isRect (length data)
     (onUpdate isRect setDatum data s
        @ map (\<lambda>d. Rect (appendRect d)) (enterData isRect data s)) = data"
proof -
  let ?L = "filter isRect (onUpdate isRect setDatum data s
        @ map (\<lambda>d. Rect (appendRect d)) (drop (length (filter isRect s)) data))"
  let ?g = "\<lambda>v. case v of None \<Rightarrow> [] | Some d \<Rightarrow> [d::Datum]"
  have "concat (map (\<lambda>e. ?g (elDatum e)) (take (length data) ?L))
        = concat (map ?g (take (length data) (map elDatum ?L)))"
    by (simp add: take_map o_def)
  also have "\<dots> = concat (map ?g (map Some data))"
    by (simp only: joined_data)
  also have "\<dots> = data"
    by (induction data) simp_all
  finally show ?thesis
    by (simp add: selectionData_def enterData_def svgSelectAll_def)
qed

lemma updateBars_eq:
  "updateBars data s =
     exitRemove isRect (length data) (onUpdate isRect (\<lambda>d e. drawnBar data d) data s)
     @ map (drawnBar data) (enterData isRect data s)"
proof -
  let ?E = "map (\<lambda>d. Rect (appendRect d)) (enterData isRect data s)"
  let ?F = "\<lambda>d e. classedBar d (sizeElement data d e)"
  have "updateBars data s =
        exitRemove isRect (length data) (onUpdate isRect ?F data (onUpdate isRect setDatum data s @ ?E))"
    by (simp add: updateBars_def Let_def selectionData_joined)
  also have "onUpdate isRect ?F data (onUpdate isRect setDatum data s @ ?E)
        = onUpdate isRect ?F data (onUpdate isRect setDatum data s)
          @ onUpdate isRect ?F (enterData isRect data s) ?E"
    by (simp add: onUpdate_append onUpdate_filter_length enterData_def svgSelectAll_def)
  also have "onUpdate isRect ?F data (onUpdate isRect setDatum data s)
        = onUpdate isRect (\<lambda>d e. drawnBar data d) data s"
    by (simp add: onUpdate_comp) (rule onUpdate_cong, simp add: drawnBar_over)
  also have "onUpdate isRect ?F (enterData isRect data s) ?E
        = map (drawnBar data) (enterData isRect data s)"
    by (simp add: onUpdate_map_all drawnBar_def)
  finally show ?thesis
    by (simp add: exitRemove_append onUpdate_filter_length exitRemove_id
        enterData_def svgSelectAll_def o_def)
qed

lemma exit_update_map:
  "(\<And>d e. sel e \<Longrightarrow> sel (f d e)) \<Longrightarrow> (\<And>d e. sel e \<Longrightarrow> q (f d e) = h d) \<Longrightarrow>
   map q (filter sel (exitRemove sel (length ds) (onUpdate sel f ds s)))
   = map h (take (length (filter sel s)) ds)"
proof (induction s arbitrary: ds)
  case Nil
  show ?case by simp
next
  case (Cons e es)
  show ?case
  proof (cases ds)
    case Nil
    then show ?thesis by (simp add: exitRemove_filter)
  next
    case (Cons d ds')
    then show ?thesis using Cons.IH [of ds'] Cons.IH [of "d # ds'"] Cons.prems
      by simp
  qed
qed

lemma rects_updateBars: "filter isRect (updateBars data s) = map (drawnBar data) data"
proof -
  have "map id (filter isRect (updateBars data s))
        = map (drawnBar data) (take (length (filter isRect s)) data)
          @ map (drawnBar data) (drop (length (filter isRect s)) data)"
    unfolding updateBars_eq filter_append map_append
    by (subst exit_update_map [where h = "drawnBar data"])
       (simp_all add: enterData_def svgSelectAll_def)
  then show ?thesis
    by (simp flip: map_append)
qed

lemma others_updateBars:
  "filter (\<lambda>e. \<not> isRect e) (updateBars data s) = filter (\<lambda>e. \<not> isRect e) s"
  by (simp add: updateBars_eq exitRemove_other onUpdate_other o_def)


lemma isFo_updateLabel [simp]: "isForeignObject (updateLabel m data d e) = isForeignObject e"
  by (cases e) simp_all

lemma isFo_enterLabel [simp]: "isForeignObject (enterLabel data d)"
  by (simp add: enterLabel_def)

lemma updateLabels_eq:
  "updateLabels m data s =
     exitRemove isForeignObject (length data)
       (onUpdate isForeignObject (\<lambda>d e. updateLabel m data d (setDatum d e)) data s)
     @ map (enterLabel data) (enterData isForeignObject data s)"
  by (simp add: updateLabels_def Let_def onUpdate_comp exitRemove_append onUpdate_filter_length
      exitRemove_id enterData_def svgSelectAll_def)

lemma geometry_updateLabel:
  "isForeignObject e \<Longrightarrow> geometry (updateLabel m data d (setDatum d e)) = drawnGeometry data d"
  by (cases e)
     (simp_all add: selectDivText_def setSizeAndPositionToRect_def drawnGeometry_def Let_def
       appendRect_def split: option.splits)

lemma geometry_enterLabel: "geometry (enterLabel data d) = drawnGeometry data d"
  by (simp add: enterLabel_def appendDiv_def setSizeAndPositionToRect_def drawnGeometry_def
      Let_def appendRect_def)

lemma geometry_drawnBar: "geometry (drawnBar data d) = drawnGeometry data d"
  by (simp add: drawnBar_def setSizeAndPositionToRect_def drawnGeometry_def Let_def
      appendRect_def)

lemma elDatum_updateLabel:
  "isForeignObject e \<Longrightarrow> elDatum (updateLabel m data d (setDatum d e)) = Some d"
  by (cases e)
     (simp_all add: selectDivText_def setSizeAndPositionToRect_def Let_def split: option.splits)

lemma elDatum_enterLabel: "elDatum (enterLabel data d) = Some d"
  by (simp add: enterLabel_def appendDiv_def setSizeAndPositionToRect_def Let_def
      appendForeignObject_def)


lemma labels_geometry:
  "map geometry (filter isForeignObject (updateLabels m data s)) = map (drawnGeometry data) data"
proof -
  have "map geometry (filter isForeignObject (updateLabels m data s))
        = map (drawnGeometry data) (take (length (filter isForeignObject s)) data)
          @ map (drawnGeometry data) (drop (length (filter isForeignObject s)) data)"
    by (simp add: updateLabels_eq exit_update_map geometry_updateLabel geometry_enterLabel
        enterData_def svgSelectAll_def o_def)
  then show ?thesis
    by (simp flip: map_append)
qed

lemma labels_data:
  "map elDatum (filter isForeignObject (updateLabels m data s)) = map Some data"
proof -
  have "map elDatum (filter isForeignObject (updateLabels m data s))
        = map Some (take (length (filter isForeignObject s)) data)
          @ map Some (drop (length (filter isForeignObject s)) data)"
    by (simp add: updateLabels_eq exit_update_map elDatum_updateLabel elDatum_enterLabel
        enterData_def svgSelectAll_def o_def)
  then show ?thesis
    by (simp flip: map_append)
qed

lemma others_updateLabels:
  "filter (\<lambda>e. \<not> isForeignObject e) (updateLabels m data s)
   = filter (\<lambda>e. \<not> isForeignObject e) s"
  by (simp add: updateLabels_eq exitRemove_other onUpdate_other o_def)

lemma isAxis_not_rect: "isAxis e \<Longrightarrow> \<not> isRect e"
  by (cases e) simp_all

lemma isAxis_not_fo: "isAxis e \<Longrightarrow> \<not> isForeignObject e"
  by (cases e) simp_all

lemma isRect_not_fo: "isRect e \<Longrightarrow> \<not> isForeignObject e"
  by (cases e) simp_all

lemma filter_through:
  "(\<And>e. p e \<Longrightarrow> q e) \<Longrightarrow> filter q xs = filter q ys \<Longrightarrow> filter p xs = filter p ys"
proof -
  assume pq: "\<And>e. p e \<Longrightarrow> q e" and eq: "filter q xs = filter q ys"
  have "filter p xs = filter p (filter q xs)" using pq by (auto simp: filter_filter intro: filter_cong)
  also have "\<dots> = filter p (filter q ys)" using eq by simp
  also have "\<dots> = filter p ys" using pq by (auto simp: filter_filter intro: filter_cong)
  finally show ?thesis .
qed


lemma fos_updateBars: "filter isForeignObject (updateBars data s) = filter isForeignObject s"
  by (rule filter_through [OF _ others_updateBars]) (auto dest: isRect_not_fo)


lemma rects_updateLabels: "filter isRect (updateLabels m data s) = filter isRect s"
  by (rule filter_through [OF _ others_updateLabels]) (auto dest: isRect_not_fo)


lemma rects_updateAxises: "filter isRect (updateAxises data s) = filter isRect s"
  by (induction s) (auto simp: updateAxises_def Let_def dest: isAxis_not_rect)

lemma fos_updateAxises: "filter isForeignObject (updateAxises data s) = filter isForeignObject s"
  by (induction s) (auto simp: updateAxises_def Let_def dest: isAxis_not_fo)

lemma exitRemove_zero: "exitRemove sel 0 s = filter (\<lambda>e. \<not> sel e) s"
  by (induction s) simp_all

lemma updateBars_Nil: "updateBars [] s = filter (\<lambda>e. \<not> isRect e) s"
  by (simp add: updateBars_eq exitRemove_zero enterData_def)

lemma updateLabels_Nil: "updateLabels m [] s = filter (\<lambda>e. \<not> isForeignObject e) s"
  by (simp add: updateLabels_eq exitRemove_zero enterData_def)

lemma rects_updateSvg:
  "svgRectElements (updateSvg m arg s) = map (drawnBar (defaultData arg)) (defaultData arg)"
  by (simp add: svgRectElements_def svgSelectAll_def updateSvg_def Let_def rects_updateLabels
      rects_updateBars)

lemma labels_updateSvg_geometry:
  "map geometry (svgForeignObjectElements (updateSvg m arg s))
   = map (drawnGeometry (defaultData arg)) (defaultData arg)"
  by (simp add: svgForeignObjectElements_def svgSelectAll_def updateSvg_def Let_def
      labels_geometry)

lemma labels_updateSvg_data:
  "map elDatum (svgForeignObjectElements (updateSvg m arg s)) = map Some (defaultData arg)"
  by (simp add: svgForeignObjectElements_def svgSelectAll_def updateSvg_def Let_def
      labels_data)


lemma yScale_Nil: "yScale [] = \<lparr> linDomain = (Num 0, NaN), linRange = (285, 5) \<rparr>"
  by (simp add: yScale_def nice_def setLinRange_def setLinDomain_def scaleLinear_def
      toNumber_def svgHeight_def svgMargin_def)


lemma updateSvg_fresh:
  "updateSvg m (Some data) []
   = [G (xAxisGroup data), G (yAxisGroup data)] @ map (drawnBar data) data
     @ map (enterLabel data) data"
  by (simp add: updateSvg_def defaultData_def Let_def updateAxises_def updateBars_eq
      updateLabels_eq enterData_def svgSelectAll_def onUpdate_none exitRemove_id
      onUpdate_append exitRemove_append filter_empty_conv isRect_not_fo)


lemma rects_updateSvg_geometry:
  "map geometry (svgRectElements (updateSvg m arg s))
   = map (drawnGeometry (defaultData arg)) (defaultData arg)"
  by (simp add: rects_updateSvg geometry_drawnBar o_def)

lemma map_pair_cong:
  "map f xs = map f ys \<Longrightarrow> map g xs = map g ys \<Longrightarrow>
   map (\<lambda>x. h (f x) (g x)) xs = map (\<lambda>x. h (f x) (g x)) ys"
proof (induction xs arbitrary: ys)
  case Nil
  then show ?case by simp
next
  case (Cons x xs)
  from Cons.prems(1) obtain y ys' where ys: "ys = y # ys'"
    by (cases ys) simp_all
  with Cons.prems have "f x = f y" "g x = g y" "map f xs = map f ys'" "map g xs = map g ys'"
    by simp_all
  with Cons.IH [of ys'] ys show ?case
    by simp
qed

lemma drawnGeometry_alt:
  "drawnGeometry data d =
     (map_option Num (bandApply (xScale data) (name d)),
      Some (linApply (yScale data) (val d)),
      Some (Num (bandwidth (xScale data))),
      Some (jsMinus (svgHeight - mBottom svgMargin) (linApply (yScale data) (val d))))"
  by (simp add: drawnGeometry_def setSizeAndPositionToRect_def Let_def appendRect_def)

lemma same_names_values:
  assumes "map name d1 = map name d2" and "map val d1 = map val d2"
  shows "map (drawnGeometry d1) d1 = map (drawnGeometry d2) d2"
proof -
  have x: "xScale d1 = xScale d2"
    by (simp only: xScale_def assms(1))
  have y: "yScale d1 = yScale d2"
    by (simp only: yScale_def assms(2))
  show ?thesis
    unfolding drawnGeometry_alt x y
    by (rule map_pair_cong [OF assms])
qed

lemma onUpdate_pred:
  "(\<And>e. e \<in> set s \<Longrightarrow> P e) \<Longrightarrow> (\<And>d e. sel e \<Longrightarrow> P e \<Longrightarrow> P (f d e)) \<Longrightarrow>
   e \<in> set (onUpdate sel f ds s) \<Longrightarrow> P e"
  by (induction sel f ds s rule: onUpdate.induct) (auto split: if_splits)

lemma exitRemove_subset: "e \<in> set (exitRemove sel n s) \<Longrightarrow> e \<in> set s"
  by (induction s arbitrary: n) (auto split: if_splits nat.splits)

lemma exit_update_pred:
  "(\<And>e. e \<in> set s \<Longrightarrow> \<not> sel e \<Longrightarrow> P e) \<Longrightarrow> (\<And>d e. sel e \<Longrightarrow> P (f d e)) \<Longrightarrow>
   (\<And>d e. sel e \<Longrightarrow> sel (f d e)) \<Longrightarrow>
   e \<in> set (exitRemove sel (length ds) (onUpdate sel f ds s)) \<Longrightarrow> P e"
proof (induction s arbitrary: ds)
  case Nil
  then show ?case by simp
next
  case (Cons a as)
  show ?case
  proof (cases ds)
    case Nil
    then show ?thesis using Cons.prems
      by (simp add: exitRemove_zero del: exitRemove.simps) (auto split: if_splits)
  next
    case (Cons d ds')
    then show ?thesis using Cons.IH [of ds'] Cons.IH [of "d # ds'"] Cons.prems
      by (auto split: if_splits)
  qed
qed

lemma exclusive_drawnBar: "exclusiveClasses (drawnBar data d)"
  by (simp add: drawnBar_def)

lemma exclusive_enterLabel: "exclusiveClasses (enterLabel data d)"
  by (simp add: enterLabel_def appendDiv_def)

lemma exclusive_updateLabel:
  "exclusiveClasses e \<Longrightarrow> exclusiveClasses (updateLabel m data d (setDatum d e))"
  by (cases e)
     (auto simp: selectDivText_def setSizeAndPositionToRect_def Let_def split: option.splits)

lemma exclusive_updateAxises:
  "(\<And>e. e \<in> set s \<Longrightarrow> \<not> isRect e \<Longrightarrow> exclusiveClasses e) \<Longrightarrow>
   e \<in> set (updateAxises data s) \<Longrightarrow> \<not> isRect e \<Longrightarrow> exclusiveClasses e"
  by (auto simp: updateAxises_def Let_def)

lemma exclusive_updateBars:
  assumes "\<And>e. e \<in> set s \<Longrightarrow> \<not> isRect e \<Longrightarrow> exclusiveClasses e"
    and "e \<in> set (updateBars data s)"
  shows "exclusiveClasses e"
proof -
  from assms(2) consider
    "e \<in> set (exitRemove isRect (length data) (onUpdate isRect (\<lambda>d e. drawnBar data d) data s))"
    | "e \<in> set (map (drawnBar data) (enterData isRect data s))"
    by (auto simp: updateBars_eq)
  then show ?thesis
  proof cases
    case 1
    then show ?thesis
      by (rule exit_update_pred [rotated 3]) (simp_all add: assms(1) exclusive_drawnBar)
  next
    case 2
    then show ?thesis by (auto simp: exclusive_drawnBar)
  qed
qed

lemma exclusive_updateLabels:
  assumes "\<And>e. e \<in> set s \<Longrightarrow> exclusiveClasses e"
    and "e \<in> set (updateLabels m data s)"
  shows "exclusiveClasses e"
proof -
  from assms(2) consider
    "e \<in> set (onUpdate isForeignObject (\<lambda>d e. updateLabel m data d (setDatum d e)) data s)"
    | "e \<in> set (map (enterLabel data) (enterData isForeignObject data s))"
    by (auto simp: updateLabels_eq dest: exitRemove_subset)
  then show ?thesis
  proof cases
    case 1
    then show ?thesis
      by (rule onUpdate_pred [rotated 2]) (simp_all add: assms(1) exclusive_updateLabel)
  next
    case 2
    then show ?thesis by (auto simp: exclusive_enterLabel)
  qed
qed

lemma exclusive_updateSvg:
  assumes "\<And>e. e \<in> set s \<Longrightarrow> isForeignObject e \<Longrightarrow> exclusiveClasses e"
    and "e \<in> set (updateSvg m arg s)"
  shows "exclusiveClasses e"
proof -
  have not_rect: "exclusiveClasses a" if "a \<in> set s" and "\<not> isRect a" for a
    by (cases a) (use that assms(1) [of a] in simp_all)
  have "exclusiveClasses a"
    if "a \<in> set (updateBars (defaultData arg) (updateAxises (defaultData arg) s))" for a
    using that
    by (rule exclusive_updateBars [rotated]) (erule exclusive_updateAxises [rotated], simp_all add: not_rect)
  then show ?thesis
    using assms(2) by (auto simp: updateSvg_def Let_def intro: exclusive_updateLabels)
qed




lemma remdups_snoc: "remdups (xs @ [v]) = remdups (filter (\<lambda>x. x \<noteq> v) xs) @ [v]"
  by (induction xs) auto

lemma internDomain_first:
  "internDomain acc vs = acc @ rev (remdups (rev (filter (\<lambda>v. v \<notin> set acc) vs)))"
proof (induction vs arbitrary: acc)
  case Nil
  show ?case by simp
next
  case (Cons v vs)
  show ?case
  proof (cases "v \<in> set acc")
    case True
    then show ?thesis using Cons.IH [of acc] by simp
  next
    case False
    have "rev (remdups (rev (filter (\<lambda>w. w \<notin> set acc) vs) @ [v]))
          = v # rev (remdups (rev (filter (\<lambda>w. w \<noteq> v) (filter (\<lambda>w. w \<notin> set acc) vs))))"
      by (simp add: remdups_snoc rev_filter)
    then show ?thesis using False Cons.IH [of "acc @ [v]"]
      by (simp add: conj_commute)
  qed
qed

lemma bandDomain_xScale:
  "bandDomain (xScale data) = rev (remdups (rev (map name data)))"
  by (simp add: xScale_def setBandPadding_def setBandRange_def setBandDomain_def
      internDomain_first)

lemma bandDomain_distinct:
  "distinct (map name data) \<Longrightarrow> bandDomain (xScale data) = map name data"
  by (simp add: bandDomain_xScale distinct_remdups_id)

lemma indexOf_some: "v \<in> set ws \<Longrightarrow> \<exists>i < length ws. indexOf v ws = Some i"
  by (induction ws) auto

lemma bandRange_xScale: "bandRange (xScale data) = (25, 595)"
  by (simp add: xScale_def setBandPadding_def setBandRange_def setBandDomain_def
      svgMargin_def svgWidth_def)

lemma paddings_xScale:
  "paddingInner (xScale data) = 2 / 5" "paddingOuter (xScale data) = 2 / 5"
  "bandAlign (xScale data) = 1 / 2"
  by (simp_all add: xScale_def setBandPadding_def setBandRange_def setBandDomain_def
      scaleBand_def)

lemma band_bounds:
  fixes n i :: nat
  assumes "i < n"
  defines "step \<equiv> (570::rat) / max 1 (of_nat n - 2 / 5 + 2 / 5 * 2)"
  defines "start \<equiv> (25::rat) + (570 - step * (of_nat n - 2 / 5)) * (1 / 2)"
  shows "25 \<le> start + step * of_nat i" and "start + step * of_nat i + step * (1 - 2 / 5) \<le> 595"
proof -
  let ?t = "of_nat n + 2 / 5 :: rat"
  from assms(1) have n1: "(1::rat) \<le> of_nat n" by simp
  then have t: "max 1 (of_nat n - 2 / 5 + 2 / 5 * 2) = ?t" by simp
  have tpos: "0 < ?t" using n1 by simp
  have "570 / q * q = 570" if "q \<noteq> 0" for q :: rat
    using that by simp
  from this [of ?t] have step: "step * ?t = 570"
    unfolding step_def t using tpos by simp
  have spos: "0 \<le> step" unfolding step_def t using tpos by simp
  have start: "start = 25 + step * (2 / 5)"
    using step by (simp add: start_def algebra_simps)
  from assms(1) have "Suc i \<le> n" by simp
  then have "of_nat (Suc i) \<le> (of_nat n :: rat)" by (simp only: of_nat_le_iff)
  then have "of_nat i + 1 \<le> (of_nat n :: rat)" by simp
  then have "step * (of_nat i + 1) \<le> step * of_nat n"
    using spos by (rule mult_left_mono)
  moreover have "0 \<le> step * of_nat i" using spos by simp
  ultimately show "25 \<le> start + step * of_nat i"
    and "start + step * of_nat i + step * (1 - 2 / 5) \<le> 595"
    using step spos by (simp_all add: start algebra_simps)
qed

lemma bandApply_position:
  assumes "d \<in> set data"
  shows "\<exists>p. bandApply (xScale data) (name d) = Some p \<and> 25 \<le> p \<and>
             p + bandwidth (xScale data) \<le> 595"
proof -
  let ?sc = "xScale data"
  let ?n = "length (bandDomain ?sc)"
  from assms have "name d \<in> set (bandDomain ?sc)"
    by (simp add: bandDomain_xScale)
  then obtain i where i: "i < ?n" and ix: "indexOf (name d) (bandDomain ?sc) = Some i"
    using indexOf_some by blast
  have step: "bandStep ?sc = 570 / max 1 (of_nat ?n - 2 / 5 + 2 / 5 * 2)"
    by (simp add: bandStep_def bandRange_xScale paddings_xScale)
  have start: "bandStart ?sc = 25 + (570 - bandStep ?sc * (of_nat ?n - 2 / 5)) * (1 / 2)"
    by (simp add: bandStart_def bandRange_xScale paddings_xScale)
  have width: "bandwidth ?sc = bandStep ?sc * (1 - 2 / 5)"
    by (simp add: bandwidth_def paddings_xScale)
  have "bandValues ?sc = map (\<lambda>i. bandStart ?sc + bandStep ?sc * of_nat i) [0 ..< ?n]"
    by (simp add: bandValues_def bandRange_xScale)
  with i ix have app: "bandApply ?sc (name d) = Some (bandStart ?sc + bandStep ?sc * of_nat i)"
    by (simp add: bandApply_def)
  from band_bounds [OF i] show ?thesis
    unfolding app width start step by simp
qed









text \<open>\<open>floorLog10\<close> is the floor of the decimal logarithm: \<open>q\<close> lies between the power of
  ten it names and the next one.\<close>

lemma ilog10_bounds: "0 < n \<Longrightarrow> 10 ^ ilog10 n \<le> n \<and> n < 10 ^ Suc (ilog10 n)"
proof (induction n rule: ilog10.induct)
  case (1 n)
  show ?case
  proof (cases "n < 10")
    case True
    with "1.prems" show ?thesis by (simp add: ilog10.simps [of n])
  next
    case False
    then have pos: "0 < n div 10" by simp
    from "1.IH" [OF False pos] have lo: "10 ^ ilog10 (n div 10) \<le> n div 10"
      and hi: "n div 10 < 10 ^ Suc (ilog10 (n div 10))" by auto
    have "10 * (n div 10) \<le> n" by simp
    with lo have a: "10 * 10 ^ ilog10 (n div 10) \<le> n" by linarith
    from hi have "Suc (n div 10) \<le> 10 ^ Suc (ilog10 (n div 10))" by simp
    then have "10 * Suc (n div 10) \<le> 10 * 10 ^ Suc (ilog10 (n div 10))" by simp
    moreover have "n < 10 * Suc (n div 10)" by (simp add: dividend_less_times_div)
    ultimately have b: "n < 10 * 10 ^ Suc (ilog10 (n div 10))" by linarith
    from a b False show ?thesis by (simp add: ilog10.simps [of n])
  qed
qed

lemma pow10_nonneg: "0 \<le> k \<Longrightarrow> pow10 k = 10 ^ nat k"
  by (simp add: pow10_def)

lemma pow10_neg: "k < 0 \<Longrightarrow> pow10 k = 1 / 10 ^ nat (- k)"
  by (simp add: pow10_def)

lemma floorLog10_bounds:
  assumes "0 < q"
  shows "pow10 (floorLog10 q) \<le> q \<and> q < pow10 (floorLog10 q + 1)"
proof (cases "1 \<le> q")
  case True
  let ?n = "nat \<lfloor>q\<rfloor>"
  from True have f1: "1 \<le> \<lfloor>q\<rfloor>" by simp
  then have npos: "0 < ?n" by simp
  from ilog10_bounds [OF npos] have lo: "10 ^ ilog10 ?n \<le> ?n" and hi: "?n < 10 ^ Suc (ilog10 ?n)"
    by auto
  have n: "(of_nat ?n :: rat) = of_int \<lfloor>q\<rfloor>" using f1 by simp
  from lo have "(of_nat (10 ^ ilog10 ?n) :: rat) \<le> of_nat ?n" by (simp only: of_nat_le_iff)
  then have "(10::rat) ^ ilog10 ?n \<le> of_int \<lfloor>q\<rfloor>" by (simp add: n)
  also have "\<dots> \<le> q" by (rule of_int_floor_le)
  finally have a: "(10::rat) ^ ilog10 ?n \<le> q" .
  from hi have "Suc ?n \<le> 10 ^ Suc (ilog10 ?n)" by simp
  then have "(of_nat (Suc ?n) :: rat) \<le> of_nat (10 ^ Suc (ilog10 ?n))" by (simp only: of_nat_le_iff)
  then have "of_int \<lfloor>q\<rfloor> + 1 \<le> (10::rat) ^ Suc (ilog10 ?n)" using n by simp
  moreover have "q < of_int \<lfloor>q\<rfloor> + 1" by linarith
  ultimately have b: "q < (10::rat) ^ Suc (ilog10 ?n)" by linarith
  from a b True show ?thesis
    by (simp add: floorLog10_def pow10_def nat_add_distrib)
next
  case False
  let ?r = "1 / q"
  let ?m = "\<lceil>?r\<rceil>"
  let ?n = "nat (?m - 1)"
  from False assms have r1: "1 < ?r" by simp
  then have m2: "2 \<le> ?m" by linarith
  then have npos: "0 < ?n" by simp
  from ilog10_bounds [OF npos] have lo: "10 ^ ilog10 ?n \<le> ?n" and hi: "?n < 10 ^ Suc (ilog10 ?n)"
    by auto
  from m2 have "0 \<le> ?m - 1" by linarith
  then have "(of_nat ?n :: rat) = of_int (?m - 1)" by (rule of_nat_nat)
  then have n: "(of_nat ?n :: rat) = of_int ?m - 1" by simp
  from lo have "(of_nat (10 ^ ilog10 ?n) :: rat) \<le> of_nat ?n" by (simp only: of_nat_le_iff)
  then have "(10::rat) ^ ilog10 ?n \<le> of_int ?m - 1" by (simp add: n)
  moreover have "of_int ?m - 1 < ?r" by linarith
  ultimately have a: "(10::rat) ^ ilog10 ?n < ?r" by linarith
  from hi have "Suc ?n \<le> 10 ^ Suc (ilog10 ?n)" by simp
  then have "(of_nat (Suc ?n) :: rat) \<le> of_nat (10 ^ Suc (ilog10 ?n))" by (simp only: of_nat_le_iff)
  then have "of_int ?m \<le> (10::rat) ^ Suc (ilog10 ?n)" using n by simp
  moreover have "?r \<le> of_int ?m" by linarith
  ultimately have b: "?r \<le> (10::rat) ^ Suc (ilog10 ?n)" by linarith
  have p: "(0::rat) < 10 ^ ilog10 ?n" "(0::rat) < 10 ^ Suc (ilog10 ?n)" by simp_all
  from a assms p have a': "q < 1 / 10 ^ ilog10 ?n"
    by (simp add: field_simps)
  from b assms p have b': "1 / 10 ^ Suc (ilog10 ?n) \<le> q"
    by (simp add: field_simps)
  have fl: "floorLog10 q = - (int (ilog10 ?n) + 1)"
    using False by (simp add: floorLog10_def)
  show ?thesis
  proof (cases "ilog10 ?n")
    case 0
    with a' b' show ?thesis by (simp add: fl pow10_def)
  next
    case (Suc j)
    with a' b' show ?thesis by (simp add: fl pow10_def nat_add_distrib)
  qed
qed

section \<open>The claims\<close>

text \<open>
  C2. For every dataset of length \<open>n\<close>, each bind-and-draw routine removes the stale
  elements: after \<open>updateBars\<close> exactly \<open>n\<close> rect elements remain, and after
  \<open>updateLabels\<close> exactly \<open>n\<close> foreignObject elements remain, whatever the graphic held
  before. The rects that remain are the bars drawn for the data, in data order.
\<close>

theorem stale_elements_removed:
  "length (svgRectElements (updateBars data s)) = length data \<and>
   length (svgForeignObjectElements (updateLabels m data s)) = length data \<and>
   svgRectElements (updateBars data s) = map (drawnBar data) data"
proof -
  have "length (map geometry (filter isForeignObject (updateLabels m data s))) = length data"
    by (simp only: labels_geometry length_map)
  then show ?thesis
    by (simp add: svgRectElements_def svgForeignObjectElements_def svgSelectAll_def
        rects_updateBars)
qed

text \<open>
  C1. For the empty dataset, or an omitted argument, which defaults to the empty
  sequence, \<open>updateSvg\<close> yields an empty chart: no rect and no foreignObject is left,
  and the graphic is what it held besides bars, labels and axes, followed by the two axis
  groups. Every step has a result: \<open>d3.max\<close> of no values is \<open>undefined\<close>, and the
  linear scale is built all the same, with the domain \<open>[0, NaN]\<close>.
\<close>

theorem empty_dataset_empty_chart:
  "updateSvg m None s = updateSvg m (Some []) s \<and>
   svgRectElements (updateSvg m (Some []) s) = [] \<and>
   svgForeignObjectElements (updateSvg m (Some []) s) = [] \<and>
   d3max (map val []) = None \<and>
   yScale [] = \<lparr> linDomain = (Num 0, NaN), linRange = (285, 5) \<rparr> \<and>
   updateSvg m (Some []) s
     = filter (\<lambda>e. \<not> isRect e \<and> \<not> isForeignObject e \<and> \<not> isAxis e) s
       @ [G (xAxisGroup []), G (yAxisGroup [])]"
proof -
  have omitted: "updateSvg m None s = updateSvg m (Some []) s"
    by (simp add: updateSvg_def defaultData_def)
  have bars: "svgRectElements (updateSvg m (Some []) s) = []"
    by (simp add: rects_updateSvg defaultData_def)
  have labels: "svgForeignObjectElements (updateSvg m (Some []) s) = []"
    using labels_updateSvg_data [of m "Some []" s] by (simp add: defaultData_def)
  have none: "d3max (map val []) = None"
    by simp
  have rest: "updateSvg m (Some []) s
     = filter (\<lambda>e. \<not> isRect e \<and> \<not> isForeignObject e \<and> \<not> isAxis e) s
       @ [G (xAxisGroup []), G (yAxisGroup [])]"
    by (simp add: updateSvg_def defaultData_def Let_def updateBars_Nil updateLabels_Nil
        updateAxises_def xAxisGroup_def yAxisGroup_def)
       (rule filter_cong, auto)
  show ?thesis
    by (intro conjI omitted bars labels none yScale_Nil rest)
qed



text \<open>
  C7, as the code has it. \<open>updateSvg\<close> runs the three routines in the order axes,
  bars, labels, each of which computes the scales it needs from the data. On an empty
  graphic the children are therefore the two axis groups, then the bars, then the labels;
  \<open>ngAfterViewInit\<close> does this with the fixed data.
\<close>

theorem redraw_order:
  "updateSvg m arg s
     = updateLabels m (defaultData arg)
         (updateBars (defaultData arg) (updateAxises (defaultData arg) s)) \<and>
   updateSvg m (Some data) []
     = [G (xAxisGroup data), G (yAxisGroup data)] @ map (drawnBar data) data
       @ map (enterLabel data) data \<and>
   ngAfterViewInit m []
     = [G (xAxisGroup fixedData), G (yAxisGroup fixedData)] @ map (drawnBar fixedData) fixedData
       @ map (enterLabel fixedData) fixedData"
  by (simp add: updateSvg_fresh ngAfterViewInit_def) (simp add: updateSvg_def Let_def)

text \<open>
  C7 as stated, with the order bars, labels, axes, gives another graphic for one datum on
  the empty graphic: the axis groups would come last.
\<close>

theorem redraw_order_counterexample:
  "updateSvg True (Some [oneDatum]) []
   \<noteq> updateAxises [oneDatum] (updateLabels True [oneDatum] (updateBars [oneDatum] []))"
proof
  assume "updateSvg True (Some [oneDatum]) []
   = updateAxises [oneDatum] (updateLabels True [oneDatum] (updateBars [oneDatum] []))"
  then have "map isAxis (updateSvg True (Some [oneDatum]) [])
   = map isAxis (updateAxises [oneDatum] (updateLabels True [oneDatum] (updateBars [oneDatum] [])))"
    by simp
  then show False
    by (simp add: updateSvg_fresh updateAxises_def Let_def updateBars_eq updateLabels_eq
        enterData_def svgSelectAll_def xAxisGroup_def yAxisGroup_def drawnBar_def enterLabel_def)
qed




text \<open>
  C6. The \<open>primary\<close> flag only marks an element: two datasets with the same names and
  the same values, whatever their flags, give every bar and every label the same x, y,
  width and height. The flag decides the class, and an element has exactly one of its two
  classes: every rect after the update, and every label too when the labels that were
  there before had exactly one.
\<close>

theorem primary_flag_only_classes:
  assumes "map name d1 = map name d2" and "map val d1 = map val d2"
    and "\<forall>e \<in> set (svgForeignObjectElements s). exclusiveClasses e"
  shows "map geometry (svgRectElements (updateSvg m (Some d1) s))
           = map geometry (svgRectElements (updateSvg m (Some d2) s)) \<and>
         map geometry (svgForeignObjectElements (updateSvg m (Some d1) s))
           = map geometry (svgForeignObjectElements (updateSvg m (Some d2) s)) \<and>
         (\<forall>e \<in> set (updateSvg m (Some d1) s). exclusiveClasses e)"
proof -
  have "exclusiveClasses e" if "e \<in> set (updateSvg m (Some d1) s)" for e
    using that
    by (rule exclusive_updateSvg [rotated])
       (use assms(3) in \<open>simp add: svgForeignObjectElements_def svgSelectAll_def\<close>)
  then show ?thesis
    using same_names_values [OF assms(1,2)]
    by (simp add: rects_updateSvg_geometry labels_updateSvg_geometry defaultData_def)
qed

text \<open>
  One datum, without the flag and with it, on the empty graphic.
\<close>

theorem primary_flag_only_classes_witness:
  "map geometry (svgRectElements (updateSvg True (Some [oneDatum]) []))
     = map geometry (svgRectElements (updateSvg True (Some [oneDatum\<lparr> primary := Some True \<rparr>]) [])) \<and>
   map geometry (svgForeignObjectElements (updateSvg True (Some [oneDatum]) []))
     = map geometry
         (svgForeignObjectElements (updateSvg True (Some [oneDatum\<lparr> primary := Some True \<rparr>]) [])) \<and>
   exclusiveClasses (drawnBar [oneDatum] oneDatum) \<and>
   exclusiveClasses (enterLabel [oneDatum] oneDatum)"
  using primary_flag_only_classes [of "[oneDatum]" "[oneDatum\<lparr> primary := Some True \<rparr>]" "[]" True]
  by (simp add: svgForeignObjectElements_def svgSelectAll_def updateSvg_fresh)



text \<open>
  C3, as the code has it. The domain of the band scale of \<open>xScale\<close> is the sequence of
  the distinct datum names in the order of their first occurrence, which is the sequence
  of the names itself when they are distinct; the range is
  \<open>[svgMargin.left, svgWidth - svgMargin.right] = [25, 595]\<close>; and the position of every
  datum's name, together with the bandwidth, lies within that range.
\<close>

theorem band_scale_positions:
  "bandDomain (xScale data) = rev (remdups (rev (map name data))) \<and>
   (distinct (map name data) \<longrightarrow> bandDomain (xScale data) = map name data) \<and>
   bandRange (xScale data) = (mLeft svgMargin, svgWidth - mRight svgMargin) \<and>
   (mLeft svgMargin, svgWidth - mRight svgMargin) = (25, 595) \<and>
   (\<forall>d \<in> set data. \<exists>p. bandApply (xScale data) (name d) = Some p \<and> 25 \<le> p \<and>
        p + bandwidth (xScale data) \<le> 595)"
proof -
  have "(mLeft svgMargin, svgWidth - mRight svgMargin) = (25, 595)"
    by (simp add: svgMargin_def svgWidth_def)
  then show ?thesis
    using bandDomain_xScale [of data] bandDomain_distinct [of data] bandRange_xScale [of data]
      bandApply_position [of _ data]
    by (simp only:) blast
qed

text \<open>
  Two data with the same name, and one datum.
\<close>

theorem band_scale_positions_witness:
  "bandDomain (xScale sameNames) = [''a''] \<and>
   bandDomain (xScale [oneDatum]) = map name [oneDatum] \<and>
   (\<exists>p. bandApply (xScale sameNames) ''a'' = Some p \<and> 25 \<le> p \<and>
        p + bandwidth (xScale sameNames) \<le> 595)"
  using band_scale_positions [of sameNames] band_scale_positions [of "[oneDatum]"]
  by (simp add: sameNames_def)

text \<open>
  C3 as stated has the domain equal to the sequence of the names; for two data with the
  same name the domain holds the name once.
\<close>

theorem band_domain_counterexample:
  "bandDomain (xScale sameNames) \<noteq> map name sameNames"
  by (simp add: bandDomain_xScale sameNames_def)




end
